theory Spec2Isabelle
  imports Main "HOL-Library.Word"
begin

section \<open>The GC scheduler of the Kotlin/Native runtime\<close>

text \<open>
  A shallow embedding of \<^verbatim>\<open>GCScheduler.hpp\<close> and \<^verbatim>\<open>GCScheduler.cpp\<close>
  (\<^verbatim>\<open>kotlin-native/runtime/src/gc/common/cpp\<close>).

  \<^item> \<^verbatim>\<open>size_t\<close> and \<^verbatim>\<open>uint64_t\<close> are 64-bit words (an LP64 target): \<open>+\<close> and
    \<open>-\<close> wrap around and \<open><\<close>, \<open>\<le>\<close> compare the unsigned values, as in C++.
  \<^item> An object that is mutated in place is a record that the operation returns updated.
    A member \<^verbatim>\<open>name_\<close> of the source is the field \<open>name_'\<close> (a name cannot end
    with an underscore here), and the argument \<^verbatim>\<open>size\<close> is \<open>size'\<close>.
  \<^item> A reference to the shared configuration (\<^verbatim>\<open>GCSchedulerConfig& config_\<close>) is the
    configuration's value at the time of the call, given as the argument \<open>config\<close>.
  \<^item> The time source (\<^verbatim>\<open>currentTimeCallbackNs_\<close>, a callback) is the value it returns when
    the operation calls it, given as the argument \<open>now\<close>.
  \<^item> A \<^verbatim>\<open>std::function\<close> is an \<open>option\<close>: \<open>None\<close> is the empty function,
    whose conversion to \<^verbatim>\<open>bool\<close> is false and whose call throws
    \<^verbatim>\<open>std::bad_function_call\<close>, which ends the process inside a \<^verbatim>\<open>noexcept\<close> function.
  \<^item> An operation that can end the process returns \<open>fatal + 'a\<close>; what it makes its
    callbacks do is the list of the calls made, in order.
\<close>

subsection \<open>Machine types and fatal ends\<close>

type_synonym size_t = "64 word"
type_synonym uint64_t = "64 word"

datatype fatal = RuntimeAssertFailed string | bad_function_call

text \<open>
  Modelled from the spec: the macro \<^verbatim>\<open>RuntimeAssert\<close> is declared in \<^verbatim>\<open>KAssert.h\<close>, which
  is not among the sources. The specification (sections 4.3 and 7) says that a violated
  assertion is fatal: it aborts the process immediately.
\<close>

definition RuntimeAssert :: "bool \<Rightarrow> string \<Rightarrow> fatal + unit" where
  "RuntimeAssert condition message =
     (if condition then Inr () else Inl (RuntimeAssertFailed message))"

text \<open>\<^verbatim>\<open>static_cast<bool>(f)\<close> of a \<^verbatim>\<open>std::function\<close>.\<close>

definition to_bool :: "'f option \<Rightarrow> bool" where
  "to_bool fn = (case fn of None \<Rightarrow> False | Some _ \<Rightarrow> True)"

text \<open>
  The call \<^verbatim>\<open>fn()\<close> of a \<^verbatim>\<open>std::function<void()>\<close>: the target is recorded as called
  once.
\<close>

definition invoke :: "'f option \<Rightarrow> fatal + 'f list" where
  "invoke fn = (case fn of None \<Rightarrow> Inl bad_function_call | Some f \<Rightarrow> Inr [f])"

subsection \<open>GCSchedulerConfig\<close>

record GCSchedulerConfig =
  threshold :: size_t
  allocationThresholdBytes :: size_t
  cooldownThresholdNs :: uint64_t
  autoTune :: bool

text \<open>The default member initialisers.\<close>

definition GCSchedulerConfig_init :: GCSchedulerConfig where
  "GCSchedulerConfig_init =
     \<lparr> threshold = 100000,
       allocationThresholdBytes = 10 * 1024 * 1024,
       cooldownThresholdNs = 200 * 1000 * 1000,
       autoTune = False \<rparr>"

text \<open>
  The constructor. \<^verbatim>\<open>compiler::gcAggressive()\<close> is a constant of the build, declared in
  \<^verbatim>\<open>CompilerConstants.hpp\<close> (not among the sources): it is the argument \<open>gcAggressive\<close>
  here and in \<open>OnSafePointRegular\<close> below.
\<close>

definition GCSchedulerConfig_ctor :: "bool \<Rightarrow> GCSchedulerConfig" where
  "GCSchedulerConfig_ctor gcAggressive =
     (if gcAggressive
      then GCSchedulerConfig_init
             \<lparr> threshold := 1000, allocationThresholdBytes := 10000, cooldownThresholdNs := 0 \<rparr>
      else GCSchedulerConfig_init)"

subsection \<open>GCScheduler::ThreadData\<close>

text \<open>
  The four counters of a thread. The two other members are arguments of the operations:
  \<open>config\<close> for the reference \<^verbatim>\<open>config_\<close>, and \<open>onSafePoint\<close> for the callback
  \<^verbatim>\<open>onSafePoint_\<close>, a \<^verbatim>\<open>std::function<void(size_t, size_t)>\<close> whose target maps the two reported
  values to the calls it makes, or to a fatal end.
\<close>

record ThreadData =
  allocatedBytes_' :: size_t
  allocatedBytesThreshold_' :: size_t
  safePointsCounter_' :: size_t
  safePointsCounterThreshold_' :: size_t

type_synonym 'e OnSafePointCallback = "(size_t \<Rightarrow> size_t \<Rightarrow> fatal + 'e list) option"

definition kFunctionEpilogueWeight :: size_t where "kFunctionEpilogueWeight = 1"
definition kLoopBodyWeight :: size_t where "kLoopBodyWeight = 1"
definition kExceptionUnwindWeight :: size_t where "kExceptionUnwindWeight = 1"

definition ClearCountersAndUpdateThresholds :: "GCSchedulerConfig \<Rightarrow> ThreadData \<Rightarrow> ThreadData" where
  "ClearCountersAndUpdateThresholds config td =
     td \<lparr> allocatedBytes_' := 0,
          safePointsCounter_' := 0,
          allocatedBytesThreshold_' := allocationThresholdBytes config,
          safePointsCounterThreshold_' := threshold config \<rparr>"

text \<open>The constructor: the members start at 0, then the counters are cleared.\<close>

definition ThreadData_ctor :: "GCSchedulerConfig \<Rightarrow> ThreadData" where
  "ThreadData_ctor config =
     ClearCountersAndUpdateThresholds config
       \<lparr> allocatedBytes_' = 0, allocatedBytesThreshold_' = 0,
         safePointsCounter_' = 0, safePointsCounterThreshold_' = 0 \<rparr>"

text \<open>
  The slow path calls \<^verbatim>\<open>onSafePoint_(allocatedBytes_, safePointsCounter_)\<close> and then clears
  the counters. When the callback ends the process, nothing follows.
\<close>

definition OnSafePointSlowPath ::
  "'e OnSafePointCallback \<Rightarrow> GCSchedulerConfig \<Rightarrow> ThreadData \<Rightarrow> fatal + ThreadData \<times> 'e list" where
  "OnSafePointSlowPath onSafePoint config td =
     (case onSafePoint of
        None \<Rightarrow> Inl bad_function_call
      | Some target \<Rightarrow>
          (case target (allocatedBytes_' td) (safePointsCounter_' td) of
             Inl f \<Rightarrow> Inl f
           | Inr calls \<Rightarrow> Inr (ClearCountersAndUpdateThresholds config td, calls)))"

definition OnSafePointRegular ::
  "bool \<Rightarrow> 'e OnSafePointCallback \<Rightarrow> GCSchedulerConfig \<Rightarrow> ThreadData \<Rightarrow> size_t
     \<Rightarrow> fatal + ThreadData \<times> 'e list" where
  "OnSafePointRegular gcAggressive onSafePoint config td weight =
     (if gcAggressive then
        (let td' = td \<lparr> safePointsCounter_' := safePointsCounter_' td + weight \<rparr> in
         if safePointsCounter_' td' < safePointsCounterThreshold_' td' then Inr (td', [])
         else OnSafePointSlowPath onSafePoint config td')
      else Inr (td, []))"

definition OnSafePointAllocation ::
  "'e OnSafePointCallback \<Rightarrow> GCSchedulerConfig \<Rightarrow> ThreadData \<Rightarrow> size_t
     \<Rightarrow> fatal + ThreadData \<times> 'e list" where
  "OnSafePointAllocation onSafePoint config td size' =
     (let td' = td \<lparr> allocatedBytes_' := allocatedBytes_' td + size' \<rparr> in
      if allocatedBytes_' td' < allocatedBytesThreshold_' td' then Inr (td', [])
      else OnSafePointSlowPath onSafePoint config td')"

definition OnStoppedForGC :: "GCSchedulerConfig \<Rightarrow> ThreadData \<Rightarrow> ThreadData" where
  "OnStoppedForGC config td = ClearCountersAndUpdateThresholds config td"

subsection \<open>GCScheduler::GCData\<close>

text \<open>
  The decision state: the time of the last collection and the trigger callback, a
  \<^verbatim>\<open>std::function<void()>\<close> with targets of type \<open>'f\<close>.
\<close>

record 'f GCData =
  timeOfLastGcNs_' :: uint64_t
  scheduleGC_' :: "'f option"

text \<open>The constructor reads the time source once; \<^verbatim>\<open>scheduleGC_\<close> starts empty.\<close>

definition GCData_ctor :: "uint64_t \<Rightarrow> 'f GCData" where
  "GCData_ctor now = \<lparr> timeOfLastGcNs_' = now, GCData.scheduleGC_' = None \<rparr>"

text \<open>
  \<^verbatim>\<open>GCData::OnSafePoint\<close>. The time source is called only when the first disjunct is false;
  \<open>now\<close> is what it returns then.
\<close>

definition OnSafePoint ::
  "GCSchedulerConfig \<Rightarrow> 'f GCData \<Rightarrow> uint64_t \<Rightarrow> size_t \<Rightarrow> size_t \<Rightarrow> fatal + 'f list" where
  "OnSafePoint config gd now allocatedBytes safePointsCounter =
     (if allocatedBytes > allocationThresholdBytes config
         \<or> now - timeOfLastGcNs_' gd \<ge> cooldownThresholdNs config
      then
        (case RuntimeAssert (to_bool (GCData.scheduleGC_' gd)) ''scheduleGC_ cannot be empty'' of
           Inl f \<Rightarrow> Inl f
         | Inr _ \<Rightarrow> invoke (GCData.scheduleGC_' gd))
      else Inr [])"

definition OnPerformFullGC :: "'f GCData \<Rightarrow> uint64_t \<Rightarrow> 'f GCData" where
  "OnPerformFullGC gd now = gd \<lparr> timeOfLastGcNs_' := now \<rparr>"

text \<open>
  \<^verbatim>\<open>GCData::SetScheduleGC\<close> is an assignment with no assertion. Its result is in
  \<open>fatal + _\<close> like those of the other binding operation, so that the two can be compared.
\<close>

definition GCData_SetScheduleGC :: "'f GCData \<Rightarrow> 'f option \<Rightarrow> fatal + 'f GCData" where
  "GCData_SetScheduleGC gd scheduleGC = Inr (gd \<lparr> GCData.scheduleGC_' := scheduleGC \<rparr>)"

subsection \<open>GCScheduler\<close>

text \<open>
  The composition root. It has a member \<^verbatim>\<open>scheduleGC_\<close> of its own, the field
  \<open>GCScheduler.scheduleGC_'\<close>; that of the decision state is \<open>GCData.scheduleGC_'\<close>.
\<close>

record 'f GCScheduler =
  config_' :: GCSchedulerConfig
  gcData_' :: "'f GCData"
  scheduleGC_' :: "'f option"

text \<open>
  The constructor; the time source of its \<open>GCData\<close> is \<^verbatim>\<open>konan::getTimeNanos\<close>, and \<open>now\<close>
  is what it returns at construction.
\<close>

definition GCScheduler_ctor :: "bool \<Rightarrow> uint64_t \<Rightarrow> 'f GCScheduler" where
  "GCScheduler_ctor gcAggressive now =
     \<lparr> config_' = GCSchedulerConfig_ctor gcAggressive,
       gcData_' = GCData_ctor now,
       GCScheduler.scheduleGC_' = None \<rparr>"

text \<open>
  \<^verbatim>\<open>NewThreadData\<close> returns a \<open>ThreadData\<close> on the scheduler's configuration, whose
  callback is the closure that forwards to \<^verbatim>\<open>gcData().OnSafePoint\<close>. The closure reads the
  scheduler when it is called: \<open>NewThreadData_onSafePoint s now\<close> is its target for the
  scheduler \<open>s\<close> and the time \<open>now\<close> of the call.
\<close>

definition NewThreadData :: "'f GCScheduler \<Rightarrow> ThreadData" where
  "NewThreadData s = ThreadData_ctor (config_' s)"

definition NewThreadData_onSafePoint :: "'f GCScheduler \<Rightarrow> uint64_t \<Rightarrow> 'f OnSafePointCallback" where
  "NewThreadData_onSafePoint s now =
     Some (\<lambda>allocatedBytes safePointsCounter.
             OnSafePoint (config_' s) (gcData_' s) now allocatedBytes safePointsCounter)"

definition GCScheduler_SetScheduleGC :: "'f GCScheduler \<Rightarrow> 'f option \<Rightarrow> fatal + 'f GCScheduler" where
  "GCScheduler_SetScheduleGC s scheduleGC =
     (case RuntimeAssert (to_bool scheduleGC) ''scheduleGC cannot be empty'' of
        Inl f \<Rightarrow> Inl f
      | Inr _ \<Rightarrow>
          (case RuntimeAssert (\<not> to_bool (GCScheduler.scheduleGC_' s)) ''scheduleGC must not have been set'' of
             Inl f \<Rightarrow> Inl f
           | Inr _ \<Rightarrow>
               (let s' = s \<lparr> GCScheduler.scheduleGC_' := scheduleGC \<rparr> in
                case GCData_SetScheduleGC (gcData_' s') (GCScheduler.scheduleGC_' s') of
                  Inl f \<Rightarrow> Inl f
                | Inr gd \<Rightarrow> Inr (s' \<lparr> gcData_' := gd \<rparr>))))"

subsection \<open>A thread at work\<close>

text \<open>
  The instrumented code of a thread calls \<open>OnSafePointRegular\<close> and
  \<open>OnSafePointAllocation\<close> one after the other, while other threads may write the
  configuration between two calls. \<open>thread_run\<close> makes the calls of a list in order, each
  under the configuration as it is at that call and on the counters the call before
  left, and returns the last counters and, for each call, the calls its callback made. A
  fatal end stops the run.
\<close>

datatype safepoint = Regular size_t | Allocation size_t

definition thread_call ::
  "bool \<Rightarrow> 'e OnSafePointCallback \<Rightarrow> GCSchedulerConfig \<Rightarrow> ThreadData \<Rightarrow> safepoint
     \<Rightarrow> fatal + ThreadData \<times> 'e list" where
  "thread_call gcAggressive onSafePoint config td sp =
     (case sp of
        Regular weight \<Rightarrow> OnSafePointRegular gcAggressive onSafePoint config td weight
      | Allocation size' \<Rightarrow> OnSafePointAllocation onSafePoint config td size')"

fun thread_run ::
  "bool \<Rightarrow> 'e OnSafePointCallback \<Rightarrow> ThreadData \<Rightarrow> (GCSchedulerConfig \<times> safepoint) list
     \<Rightarrow> fatal + ThreadData \<times> 'e list list" where
  "thread_run gcAggressive onSafePoint td [] = Inr (td, [])"
| "thread_run gcAggressive onSafePoint td ((config, sp) # sps) =
     (case thread_call gcAggressive onSafePoint config td sp of
        Inl f \<Rightarrow> Inl f
      | Inr (td', calls) \<Rightarrow>
          (case thread_run gcAggressive onSafePoint td' sps of
             Inl f \<Rightarrow> Inl f
           | Inr (td'', rest) \<Rightarrow> Inr (td'', calls # rest)))"

text \<open>Runs of allocations only and of regular safepoints only.\<close>

definition allocations ::
  "(GCSchedulerConfig \<times> size_t) list \<Rightarrow> (GCSchedulerConfig \<times> safepoint) list" where
  "allocations cs = map (\<lambda>(config, size'). (config, Allocation size')) cs"

definition regulars ::
  "(GCSchedulerConfig \<times> size_t) list \<Rightarrow> (GCSchedulerConfig \<times> safepoint) list" where
  "regulars cs = map (\<lambda>(config, weight). (config, Regular weight)) cs"

text \<open>
  A callback that records each report, as the mock function of a test does: its target
  returns the reported pair as the one call made.
\<close>

definition recording :: "(size_t \<times> size_t) OnSafePointCallback" where
  "recording = Some (\<lambda>allocatedBytes safePointsCounter. Inr [(allocatedBytes, safePointsCounter)])"

text \<open>Which calls of a run reported.\<close>

definition reported :: "'e list list \<Rightarrow> bool list" where
  "reported calls = map (\<lambda>c. c \<noteq> []) calls"

subsection \<open>The reports the specification expects\<close>

text \<open>
  Section 8 of the specification, in its own words, for one of the two counters: a report
  occurs exactly when the cumulative amount since the last reset reaches the snapshotted
  threshold; a report resets the amount to zero and takes a new snapshot of the live
  threshold. The amounts are natural numbers here, with no bound. \<open>snapshot\<close> is the
  threshold the thread holds and \<open>amount\<close> the cumulative amount; each call comes with
  the live threshold \<open>live\<close> of the configuration at the call and with what it adds.
\<close>

fun reports_expected :: "nat \<Rightarrow> nat \<Rightarrow> (nat \<times> nat) list \<Rightarrow> bool list" where
  "reports_expected snapshot amount [] = []"
| "reports_expected snapshot amount ((live, x) # xs) =
     (if snapshot \<le> amount + x
      then True # reports_expected live 0 xs
      else False # reports_expected snapshot (amount + x) xs)"

text \<open>
  The cumulative amount of the specification stays below \<open>2 ^ 64\<close> at every call of the
  list: no addition of the counter wraps around.
\<close>

fun fits_size_t :: "nat \<Rightarrow> nat \<Rightarrow> (nat \<times> nat) list \<Rightarrow> bool" where
  "fits_size_t snapshot amount [] = True"
| "fits_size_t snapshot amount ((live, x) # xs) =
     (amount + x < 2 ^ 64 \<and>
      (if snapshot \<le> amount + x
       then fits_size_t live 0 xs
       else fits_size_t snapshot (amount + x) xs))"

text \<open>
  The calls of a run as the specification sees them: the live threshold of the counter
  and the amount, as numbers.
\<close>

definition allocation_amounts :: "(GCSchedulerConfig \<times> size_t) list \<Rightarrow> (nat \<times> nat) list" where
  "allocation_amounts cs =
     map (\<lambda>(config, size'). (unat (allocationThresholdBytes config), unat size')) cs"

definition regular_amounts :: "(GCSchedulerConfig \<times> size_t) list \<Rightarrow> (nat \<times> nat) list" where
  "regular_amounts cs = map (\<lambda>(config, weight). (unat (threshold config), unat weight)) cs"

section \<open>Properties\<close>

subsection \<open>Arithmetic of the machine types\<close>

lemma unat_plus_fits:
  fixes a b :: size_t
  assumes "unat a + unat b < 2 ^ 64"
  shows "unat (a + b) = unat a + unat b"
  using assms by (simp add: unat_add_lem [THEN iffD1])

text \<open>With a clock that has not gone back, the difference of two times does not wrap.\<close>

lemma elapsed_monotonic:
  fixes now last :: uint64_t
  assumes "last \<le> now"
  shows "unat (now - last) = unat now - unat last"
  using assms by (simp add: unat_sub)

subsection \<open>The decision state\<close>

lemma OnSafePoint_bound:
  "OnSafePoint config (gd \<lparr> GCData.scheduleGC_' := Some f \<rparr>) now bytes count =
     Inr (if allocationThresholdBytes config < bytes
             \<or> cooldownThresholdNs config \<le> now - timeOfLastGcNs_' gd
          then [f] else [])"
  by (simp add: OnSafePoint_def RuntimeAssert_def to_bool_def invoke_def)

text \<open>
  Claim C1. With the trigger callback \<open>f\<close> bound, a call of \<open>OnSafePoint\<close> with the
  reported values \<open>bytes\<close> and \<open>count\<close> returns normally and calls \<open>f\<close> once if
  \<open>bytes\<close> is strictly greater than the allocation threshold of the configuration as it
  is at the call, or the time elapsed since the last collection is at least the cooldown
  of that configuration; otherwise it calls nothing. The elapsed time is the difference
  \<open>now - timeOfLastGcNs_'\<close> of the source, in \<^verbatim>\<open>uint64_t\<close>; when the clock has not
  gone back since the last collection, it is the difference of the two numbers.
\<close>

theorem OnSafePoint_triggers_iff:
  "OnSafePoint config (gd \<lparr> GCData.scheduleGC_' := Some f \<rparr>) now bytes count =
     Inr (if allocationThresholdBytes config < bytes
             \<or> cooldownThresholdNs config \<le> now - timeOfLastGcNs_' gd
          then [f] else [])
   \<and> (timeOfLastGcNs_' gd \<le> now \<longrightarrow>
        OnSafePoint config (gd \<lparr> GCData.scheduleGC_' := Some f \<rparr>) now bytes count =
          Inr (if unat (allocationThresholdBytes config) < unat bytes
                  \<or> unat (cooldownThresholdNs config) \<le> unat now - unat (timeOfLastGcNs_' gd)
               then [f] else []))"
  by (simp add: OnSafePoint_bound word_less_nat_alt word_le_nat_alt elapsed_monotonic)

text \<open>
  With the default configuration (10 MiB, 200 ms) and the last collection at time 1000:
  no bytes and 200 ms elapsed trigger, no bytes and one nanosecond less do not, and one
  byte more than 10 MiB triggers after one nanosecond.
\<close>

theorem OnSafePoint_triggers_iff_witness:
  "timeOfLastGcNs_' (GCData_ctor 1000 :: nat GCData) \<le> 200001000
   \<and> OnSafePoint GCSchedulerConfig_init
        ((GCData_ctor 1000) \<lparr> GCData.scheduleGC_' := Some (7::nat) \<rparr>) 200001000 0 0 = Inr [7]
   \<and> OnSafePoint GCSchedulerConfig_init
        ((GCData_ctor 1000) \<lparr> GCData.scheduleGC_' := Some (7::nat) \<rparr>) 200000999 0 0 = Inr []
   \<and> OnSafePoint GCSchedulerConfig_init
        ((GCData_ctor 1000) \<lparr> GCData.scheduleGC_' := Some (7::nat) \<rparr>) 1001 10485761 0 = Inr [7]"
  using
    OnSafePoint_triggers_iff [where config = GCSchedulerConfig_init and gd = "GCData_ctor 1000"
      and f = "7::nat" and now = 200001000 and bytes = 0 and count = 0]
    OnSafePoint_triggers_iff [where config = GCSchedulerConfig_init and gd = "GCData_ctor 1000"
      and f = "7::nat" and now = 200000999 and bytes = 0 and count = 0]
    OnSafePoint_triggers_iff [where config = GCSchedulerConfig_init and gd = "GCData_ctor 1000"
      and f = "7::nat" and now = 1001 and bytes = 10485761 and count = 0]
  by (simp add: GCSchedulerConfig_init_def GCData_ctor_def)

text \<open>
  Claim C7. With no trigger callback bound, a call of \<open>OnSafePoint\<close> in which a trigger
  condition is met ends the process by the failed assertion, and a call in which none is
  met returns normally, with no call made.
\<close>

theorem OnSafePoint_unbound:
  "OnSafePoint config (gd \<lparr> GCData.scheduleGC_' := None \<rparr>) now bytes count =
     (if allocationThresholdBytes config < bytes
         \<or> cooldownThresholdNs config \<le> now - timeOfLastGcNs_' gd
      then Inl (RuntimeAssertFailed ''scheduleGC_ cannot be empty'')
      else Inr [])"
  by (simp add: OnSafePoint_def RuntimeAssert_def to_bool_def)

text \<open>
  Claim C6. After \<open>OnPerformFullGC\<close> at time \<open>t\<close>, a call of \<open>OnSafePoint\<close> at time
  \<open>t'\<close> whose reported bytes do not exceed the allocation threshold calls the bound
  callback exactly when \<open>t' - t\<close> is at least the cooldown (the difference of the numbers
  when \<open>t \<le> t'\<close>). With the default cooldown of 200 ms and the largest \<^verbatim>\<open>size_t\<close> as
  allocation threshold, a decision state constructed at any time \<open>t0\<close> does not trigger on
  zero bytes at \<open>t0\<close> and triggers 201 ms later.
\<close>

theorem OnPerformFullGC_restarts_cooldown:
  "(bytes \<le> allocationThresholdBytes config \<longrightarrow>
      OnSafePoint config (OnPerformFullGC (gd \<lparr> GCData.scheduleGC_' := Some f \<rparr>) t) t' bytes count =
        Inr (if cooldownThresholdNs config \<le> t' - t then [f] else []))
   \<and> (bytes \<le> allocationThresholdBytes config \<and> t \<le> t' \<longrightarrow>
      OnSafePoint config (OnPerformFullGC (gd \<lparr> GCData.scheduleGC_' := Some f \<rparr>) t) t' bytes count =
        Inr (if unat (cooldownThresholdNs config) \<le> unat t' - unat t then [f] else []))
   \<and> OnSafePoint (GCSchedulerConfig_init \<lparr> allocationThresholdBytes := - 1 \<rparr>)
        ((GCData_ctor t0) \<lparr> GCData.scheduleGC_' := Some f \<rparr>) t0 0 count = Inr []
   \<and> OnSafePoint (GCSchedulerConfig_init \<lparr> allocationThresholdBytes := - 1 \<rparr>)
        ((GCData_ctor t0) \<lparr> GCData.scheduleGC_' := Some f \<rparr>) (t0 + 201 * 1000 * 1000) 0 count =
       Inr [f]"
proof -
  have upd: "OnPerformFullGC (gd \<lparr> GCData.scheduleGC_' := Some f \<rparr>) t =
      (OnPerformFullGC gd t) \<lparr> GCData.scheduleGC_' := Some f \<rparr>"
    and last: "timeOfLastGcNs_' (OnPerformFullGC gd t) = t"
    by (simp_all add: OnPerformFullGC_def)
  have a: "bytes \<le> allocationThresholdBytes config \<Longrightarrow>
      OnSafePoint config (OnPerformFullGC (gd \<lparr> GCData.scheduleGC_' := Some f \<rparr>) t) t' bytes count =
        Inr (if cooldownThresholdNs config \<le> t' - t then [f] else [])"
    unfolding upd OnSafePoint_bound last by (simp add: not_less [symmetric])
  have b: "bytes \<le> allocationThresholdBytes config \<Longrightarrow> t \<le> t' \<Longrightarrow>
      OnSafePoint config (OnPerformFullGC (gd \<lparr> GCData.scheduleGC_' := Some f \<rparr>) t) t' bytes count =
        Inr (if unat (cooldownThresholdNs config) \<le> unat t' - unat t then [f] else [])"
    by (simp add: a word_le_nat_alt [of "cooldownThresholdNs config"] elapsed_monotonic)
  have c: "OnSafePoint (GCSchedulerConfig_init \<lparr> allocationThresholdBytes := - 1 \<rparr>)
        ((GCData_ctor t0) \<lparr> GCData.scheduleGC_' := Some f \<rparr>) t0 0 count = Inr []"
    unfolding OnSafePoint_bound by (simp add: GCSchedulerConfig_init_def GCData_ctor_def)
  have d: "OnSafePoint (GCSchedulerConfig_init \<lparr> allocationThresholdBytes := - 1 \<rparr>)
        ((GCData_ctor t0) \<lparr> GCData.scheduleGC_' := Some f \<rparr>) (t0 + 201 * 1000 * 1000) 0 count =
       Inr [f]"
    unfolding OnSafePoint_bound by (simp add: GCSchedulerConfig_init_def GCData_ctor_def)
  from a b c d show ?thesis by simp
qed

text \<open>
  A collection completes at time 5000 under the default configuration: 4096 reported
  bytes trigger 200 ms later, and not one nanosecond earlier.
\<close>

theorem OnPerformFullGC_restarts_cooldown_witness:
  "(4096 :: size_t) \<le> allocationThresholdBytes GCSchedulerConfig_init
   \<and> (5000 :: uint64_t) \<le> 200005000
   \<and> (5000 :: uint64_t) \<le> 200004999
   \<and> OnSafePoint GCSchedulerConfig_init
        (OnPerformFullGC ((GCData_ctor 0) \<lparr> GCData.scheduleGC_' := Some (7::nat) \<rparr>) 5000)
        200005000 4096 0 = Inr [7]
   \<and> OnSafePoint GCSchedulerConfig_init
        (OnPerformFullGC ((GCData_ctor 0) \<lparr> GCData.scheduleGC_' := Some (7::nat) \<rparr>) 5000)
        200004999 4096 0 = Inr []"
  using
    OnPerformFullGC_restarts_cooldown [where config = GCSchedulerConfig_init
      and gd = "GCData_ctor 0" and f = "7::nat" and t = 5000 and t' = 200005000
      and bytes = 4096 and count = 0 and ?t0.0 = 0]
    OnPerformFullGC_restarts_cooldown [where config = GCSchedulerConfig_init
      and gd = "GCData_ctor 0" and f = "7::nat" and t = 5000 and t' = 200004999
      and bytes = 4096 and count = 0 and ?t0.0 = 0]
  by (simp add: GCSchedulerConfig_init_def)

text \<open>
  Claim C8, as stated, fails: \<open>GCData_SetScheduleGC\<close> rejects nothing. On a fresh decision
  state a first call binds the target 1; on the state it leaves, a second call returns
  normally with the target 2 bound in its place, and a call with the empty function
  returns normally with no target bound.
\<close>

theorem GCData_SetScheduleGC_rejects_counterexample:
  "GCData_SetScheduleGC (GCData_ctor 0) (Some (1::nat)) =
     Inr \<lparr> timeOfLastGcNs_' = 0, scheduleGC_' = Some 1 \<rparr>
   \<and> GCData_SetScheduleGC \<lparr> timeOfLastGcNs_' = 0, scheduleGC_' = Some (1::nat) \<rparr> (Some 2) =
     Inr \<lparr> timeOfLastGcNs_' = 0, scheduleGC_' = Some 2 \<rparr>
   \<and> GCData_SetScheduleGC \<lparr> timeOfLastGcNs_' = 0, scheduleGC_' = Some (1::nat) \<rparr> None =
     Inr \<lparr> timeOfLastGcNs_' = 0, scheduleGC_' = None \<rparr>"
  by (simp add: GCData_SetScheduleGC_def GCData_ctor_def)

text \<open>
  Claim C8, amended. \<open>GCData_SetScheduleGC\<close> makes no check: every call returns normally
  and leaves the given function as \<open>scheduleGC_'\<close>, whether one was bound before or not and
  whether the given one is empty or not; the time of the last collection is untouched.
  (The checks of the binding contract are those of \<open>GCScheduler_SetScheduleGC\<close>.)
\<close>

theorem GCData_SetScheduleGC_unchecked:
  "GCData_SetScheduleGC gd scheduleGC = Inr (gd \<lparr> GCData.scheduleGC_' := scheduleGC \<rparr>)"
  by (simp add: GCData_SetScheduleGC_def)

subsection \<open>The counters of a thread\<close>

text \<open>
  Claim C5. Whatever the counters of a thread are, \<open>OnStoppedForGC\<close> leaves both
  running totals at zero and both snapshots at the thresholds of the configuration as it
  is at the call.
\<close>

theorem OnStoppedForGC_resets:
  "allocatedBytes_' (OnStoppedForGC config td) = 0
   \<and> safePointsCounter_' (OnStoppedForGC config td) = 0
   \<and> allocatedBytesThreshold_' (OnStoppedForGC config td) = allocationThresholdBytes config
   \<and> safePointsCounterThreshold_' (OnStoppedForGC config td) = threshold config"
  by (simp add: OnStoppedForGC_def ClearCountersAndUpdateThresholds_def)

text \<open>
  Claim C4. With \<open>gcAggressive\<close> false, \<open>OnSafePointRegular\<close> returns the counters it was
  given and makes no call of the callback, whatever the callback, the configuration and
  the weight are; so does every sequence of such calls.
\<close>

theorem OnSafePointRegular_not_aggressive:
  "OnSafePointRegular False onSafePoint config td weight = Inr (td, [])
   \<and> thread_run False onSafePoint td (regulars cs) = Inr (td, replicate (length cs) [])"
proof
  show one: "OnSafePointRegular False onSafePoint config td weight = Inr (td, [])"
    for config weight
    by (simp add: OnSafePointRegular_def)
  show "thread_run False onSafePoint td (regulars cs) = Inr (td, replicate (length cs) [])"
    by (induction cs) (simp_all add: regulars_def thread_call_def one split: prod.splits)
qed

subsection \<open>Single calls with the recording callback\<close>

lemma Clear_after_allocatedBytes:
  "ClearCountersAndUpdateThresholds config (td \<lparr> allocatedBytes_' := b \<rparr>) =
   ClearCountersAndUpdateThresholds config td"
  by (simp add: ClearCountersAndUpdateThresholds_def)

lemma Clear_after_safePointsCounter:
  "ClearCountersAndUpdateThresholds config (td \<lparr> safePointsCounter_' := c \<rparr>) =
   ClearCountersAndUpdateThresholds config td"
  by (simp add: ClearCountersAndUpdateThresholds_def)

lemma Allocation_recording:
  "OnSafePointAllocation recording config td size' =
     (if allocatedBytes_' td + size' < allocatedBytesThreshold_' td
      then Inr (td \<lparr> allocatedBytes_' := allocatedBytes_' td + size' \<rparr>, [])
      else Inr (ClearCountersAndUpdateThresholds config td,
                [(allocatedBytes_' td + size', safePointsCounter_' td)]))"
  by (simp add: OnSafePointAllocation_def OnSafePointSlowPath_def recording_def Let_def
      Clear_after_allocatedBytes)

lemma Regular_recording:
  "OnSafePointRegular True recording config td weight =
     (if safePointsCounter_' td + weight < safePointsCounterThreshold_' td
      then Inr (td \<lparr> safePointsCounter_' := safePointsCounter_' td + weight \<rparr>, [])
      else Inr (ClearCountersAndUpdateThresholds config td,
                [(allocatedBytes_' td, safePointsCounter_' td + weight)]))"
  by (simp add: OnSafePointRegular_def OnSafePointSlowPath_def recording_def Let_def
      Clear_after_safePointsCounter)

lemma Regular_report_resets:
  assumes "OnSafePointRegular True recording config td weight = Inr (td', calls)"
    and "calls \<noteq> []"
  shows "td' = ClearCountersAndUpdateThresholds config td" and "safePointsCounter_' td' = 0"
proof -
  from assms show "td' = ClearCountersAndUpdateThresholds config td"
    by (simp add: Regular_recording split: if_splits)
  then show "safePointsCounter_' td' = 0"
    by (simp add: ClearCountersAndUpdateThresholds_def)
qed

text \<open>Below the snapshot, a regular safepoint only adds its weight, and the sum is exact.\<close>

lemma Regular_below:
  assumes "unat (safePointsCounter_' td) + unat w < unat (safePointsCounterThreshold_' td)"
  shows "OnSafePointRegular True cb config td w =
           Inr (td \<lparr> safePointsCounter_' := safePointsCounter_' td + w \<rparr>, [])"
    and "unat (safePointsCounter_' td + w) = unat (safePointsCounter_' td) + unat w"
proof -
  have "unat (safePointsCounterThreshold_' td) < 2 ^ 64"
    using unsigned_less [of "safePointsCounterThreshold_' td"] by simp
  with assms have "unat (safePointsCounter_' td) + unat w < 2 ^ 64" by simp
  then show sum: "unat (safePointsCounter_' td + w) = unat (safePointsCounter_' td) + unat w"
    by (rule unat_plus_fits)
  with assms have "safePointsCounter_' td + w < safePointsCounterThreshold_' td"
    by (simp add: word_less_nat_alt)
  then show "OnSafePointRegular True cb config td w =
           Inr (td \<lparr> safePointsCounter_' := safePointsCounter_' td + w \<rparr>, [])"
    by (simp add: OnSafePointRegular_def Let_def)
qed

subsection \<open>Runs of a thread\<close>

lemma thread_run_append:
  "thread_run gcAggressive cb td (xs @ ys) =
     (case thread_run gcAggressive cb td xs of
        Inl f \<Rightarrow> Inl f
      | Inr (td', calls) \<Rightarrow>
          (case thread_run gcAggressive cb td' ys of
             Inl f \<Rightarrow> Inl f
           | Inr (td'', rest) \<Rightarrow> Inr (td'', calls @ rest)))"
  by (induction xs arbitrary: td) (auto split: sum.splits)

text \<open>
  The allocations of a run report where the specification expects it, as long as the
  running total of the bytes fits \<^verbatim>\<open>size_t\<close>. The induction is on the list of calls, for
  all counters; each step is on one side of the comparison of the source or the other.
\<close>

lemma allocations_refine:
  assumes "fits_size_t (unat (allocatedBytesThreshold_' td)) (unat (allocatedBytes_' td))
             (allocation_amounts cs)"
  shows "\<exists>td' calls.
           thread_run gcAggressive recording td (allocations cs) = Inr (td', calls)
           \<and> reported calls =
               reports_expected (unat (allocatedBytesThreshold_' td)) (unat (allocatedBytes_' td))
                 (allocation_amounts cs)
           \<and> list_all (\<lambda>c. length c \<le> 1) calls"
  using assms
proof (induction cs arbitrary: td)
  case Nil
  then show ?case by (simp add: reported_def allocations_def allocation_amounts_def)
next
  case (Cons c cs)
  obtain config s where c: "c = (config, s)" by (cases c)
  let ?sum = "allocatedBytes_' td + s"
  have amounts: "allocation_amounts (c # cs) =
      (unat (allocationThresholdBytes config), unat s) # allocation_amounts cs"
    and calls: "allocations (c # cs) = (config, Allocation s) # allocations cs"
    by (simp_all add: c allocation_amounts_def allocations_def)
  from Cons.prems have "unat (allocatedBytes_' td) + unat s < 2 ^ 64"
    by (simp add: amounts)
  then have sum: "unat ?sum = unat (allocatedBytes_' td) + unat s" by (rule unat_plus_fits)
  show ?case
  proof (cases "?sum < allocatedBytesThreshold_' td")
    case True
    let ?td = "td \<lparr> allocatedBytes_' := ?sum \<rparr>"
    from True sum have below:
      "\<not> unat (allocatedBytesThreshold_' td) \<le> unat (allocatedBytes_' td) + unat s"
      by (simp add: word_less_nat_alt)
    with Cons.prems sum have "fits_size_t (unat (allocatedBytesThreshold_' ?td))
        (unat (allocatedBytes_' ?td)) (allocation_amounts cs)"
      by (simp add: amounts)
    from Cons.IH [OF this] obtain td' rest where
      run: "thread_run gcAggressive recording ?td (allocations cs) = Inr (td', rest)"
      and rep: "reported rest = reports_expected (unat (allocatedBytesThreshold_' ?td))
                 (unat (allocatedBytes_' ?td)) (allocation_amounts cs)"
      and one: "list_all (\<lambda>c. length c \<le> 1) rest"
      by blast
    from True run have "thread_run gcAggressive recording td (allocations (c # cs))
        = Inr (td', [] # rest)"
      by (simp add: calls thread_call_def Allocation_recording)
    moreover from rep below sum have "reported ([] # rest) =
        reports_expected (unat (allocatedBytesThreshold_' td)) (unat (allocatedBytes_' td))
          (allocation_amounts (c # cs))"
      by (simp add: amounts reported_def)
    ultimately show ?thesis using one by simp
  next
    case False
    let ?td = "ClearCountersAndUpdateThresholds config td"
    from False sum have reach:
      "unat (allocatedBytesThreshold_' td) \<le> unat (allocatedBytes_' td) + unat s"
      by (simp add: word_less_nat_alt)
    have snap: "allocatedBytesThreshold_' ?td = allocationThresholdBytes config"
      and zero: "allocatedBytes_' ?td = 0"
      by (simp_all add: ClearCountersAndUpdateThresholds_def)
    from Cons.prems reach have "fits_size_t (unat (allocatedBytesThreshold_' ?td))
        (unat (allocatedBytes_' ?td)) (allocation_amounts cs)"
      by (simp add: amounts snap zero)
    from Cons.IH [OF this] obtain td' rest where
      run: "thread_run gcAggressive recording ?td (allocations cs) = Inr (td', rest)"
      and rep: "reported rest = reports_expected (unat (allocatedBytesThreshold_' ?td))
                 (unat (allocatedBytes_' ?td)) (allocation_amounts cs)"
      and one: "list_all (\<lambda>c. length c \<le> 1) rest"
      by blast
    from False run have "thread_run gcAggressive recording td (allocations (c # cs))
        = Inr (td', [(?sum, safePointsCounter_' td)] # rest)"
      by (simp add: calls thread_call_def Allocation_recording)
    moreover from rep reach have "reported ([(?sum, safePointsCounter_' td)] # rest) =
        reports_expected (unat (allocatedBytesThreshold_' td)) (unat (allocatedBytes_' td))
          (allocation_amounts (c # cs))"
      by (simp add: amounts reported_def snap zero)
    ultimately show ?thesis using one by simp
  qed
qed

text \<open>The same for the regular safepoints of a run in the aggressive mode.\<close>

lemma regulars_refine:
  assumes "fits_size_t (unat (safePointsCounterThreshold_' td)) (unat (safePointsCounter_' td))
             (regular_amounts cs)"
  shows "\<exists>td' calls.
           thread_run True recording td (regulars cs) = Inr (td', calls)
           \<and> reported calls =
               reports_expected (unat (safePointsCounterThreshold_' td))
                 (unat (safePointsCounter_' td)) (regular_amounts cs)
           \<and> list_all (\<lambda>c. length c \<le> 1) calls"
  using assms
proof (induction cs arbitrary: td)
  case Nil
  then show ?case by (simp add: reported_def regulars_def regular_amounts_def)
next
  case (Cons c cs)
  obtain config w where c: "c = (config, w)" by (cases c)
  let ?sum = "safePointsCounter_' td + w"
  have amounts: "regular_amounts (c # cs) = (unat (threshold config), unat w) # regular_amounts cs"
    and calls: "regulars (c # cs) = (config, Regular w) # regulars cs"
    by (simp_all add: c regular_amounts_def regulars_def)
  from Cons.prems have "unat (safePointsCounter_' td) + unat w < 2 ^ 64"
    by (simp add: amounts)
  then have sum: "unat ?sum = unat (safePointsCounter_' td) + unat w" by (rule unat_plus_fits)
  show ?case
  proof (cases "?sum < safePointsCounterThreshold_' td")
    case True
    let ?td = "td \<lparr> safePointsCounter_' := ?sum \<rparr>"
    from True sum have below:
      "\<not> unat (safePointsCounterThreshold_' td) \<le> unat (safePointsCounter_' td) + unat w"
      by (simp add: word_less_nat_alt)
    with Cons.prems sum have "fits_size_t (unat (safePointsCounterThreshold_' ?td))
        (unat (safePointsCounter_' ?td)) (regular_amounts cs)"
      by (simp add: amounts)
    from Cons.IH [OF this] obtain td' rest where
      run: "thread_run True recording ?td (regulars cs) = Inr (td', rest)"
      and rep: "reported rest = reports_expected (unat (safePointsCounterThreshold_' ?td))
                 (unat (safePointsCounter_' ?td)) (regular_amounts cs)"
      and one: "list_all (\<lambda>c. length c \<le> 1) rest"
      by blast
    from True run have "thread_run True recording td (regulars (c # cs)) = Inr (td', [] # rest)"
      by (simp add: calls thread_call_def Regular_recording)
    moreover from rep below sum have "reported ([] # rest) =
        reports_expected (unat (safePointsCounterThreshold_' td)) (unat (safePointsCounter_' td))
          (regular_amounts (c # cs))"
      by (simp add: amounts reported_def)
    ultimately show ?thesis using one by simp
  next
    case False
    let ?td = "ClearCountersAndUpdateThresholds config td"
    from False sum have reach:
      "unat (safePointsCounterThreshold_' td) \<le> unat (safePointsCounter_' td) + unat w"
      by (simp add: word_less_nat_alt)
    have snap: "safePointsCounterThreshold_' ?td = threshold config"
      and zero: "safePointsCounter_' ?td = 0"
      by (simp_all add: ClearCountersAndUpdateThresholds_def)
    from Cons.prems reach have "fits_size_t (unat (safePointsCounterThreshold_' ?td))
        (unat (safePointsCounter_' ?td)) (regular_amounts cs)"
      by (simp add: amounts snap zero)
    from Cons.IH [OF this] obtain td' rest where
      run: "thread_run True recording ?td (regulars cs) = Inr (td', rest)"
      and rep: "reported rest = reports_expected (unat (safePointsCounterThreshold_' ?td))
                 (unat (safePointsCounter_' ?td)) (regular_amounts cs)"
      and one: "list_all (\<lambda>c. length c \<le> 1) rest"
      by blast
    from False run have "thread_run True recording td (regulars (c # cs))
        = Inr (td', [(allocatedBytes_' td, ?sum)] # rest)"
      by (simp add: calls thread_call_def Regular_recording)
    moreover from rep reach have "reported ([(allocatedBytes_' td, ?sum)] # rest) =
        reports_expected (unat (safePointsCounterThreshold_' td)) (unat (safePointsCounter_' td))
          (regular_amounts (c # cs))"
      by (simp add: amounts reported_def snap zero)
    ultimately show ?thesis using one by simp
  qed
qed

text \<open>
  While the sum of the weights stays below the snapshot, \<open>n\<close> regular safepoints of
  weight \<open>w\<close> report nothing and leave the sum in the counter.
\<close>

lemma Regular_replicate_below:
  assumes "unat (safePointsCounter_' td) + n * unat w < unat (safePointsCounterThreshold_' td)"
  shows "thread_run True cb td (replicate n (config, Regular w)) =
           Inr (td \<lparr> safePointsCounter_' := safePointsCounter_' td + of_nat n * w \<rparr>,
                replicate n [])"
  using assms
proof (induction n arbitrary: td)
  case 0
  then show ?case by simp
next
  case (Suc n)
  let ?td = "td \<lparr> safePointsCounter_' := safePointsCounter_' td + w \<rparr>"
  from Suc.prems
  have one: "unat (safePointsCounter_' td) + unat w < unat (safePointsCounterThreshold_' td)"
    by simp
  note step = Regular_below [OF one]
  from Suc.prems step(2) have "unat (safePointsCounter_' ?td) + n * unat w
      < unat (safePointsCounterThreshold_' ?td)"
    by simp
  from Suc.IH [OF this]
  have "thread_run True cb ?td (replicate n (config, Regular w)) =
      Inr (td \<lparr> safePointsCounter_' := safePointsCounter_' td + of_nat (Suc n) * w \<rparr>,
           replicate n [])"
    by (simp add: algebra_simps)
  with step(1) [of cb config] show ?case
    by (simp add: thread_call_def)
qed

text \<open>
  Scenario A of the specification: the default configuration (weight threshold 100000,
  10 MiB, 200 ms), the aggressive mode and safepoints of weight 1.
\<close>

lemma scenario_A_below:
  "thread_run True recording (ThreadData_ctor GCSchedulerConfig_init)
     (replicate 99999 (GCSchedulerConfig_init, Regular 1)) =
   Inr ((ThreadData_ctor GCSchedulerConfig_init) \<lparr> safePointsCounter_' := 99999 \<rparr>,
        replicate 99999 [])"
proof -
  have "unat (safePointsCounter_' (ThreadData_ctor GCSchedulerConfig_init))
          + 99999 * unat (1 :: size_t)
      < unat (safePointsCounterThreshold_' (ThreadData_ctor GCSchedulerConfig_init))"
    by (simp add: ThreadData_ctor_def ClearCountersAndUpdateThresholds_def
        GCSchedulerConfig_init_def)
  from Regular_replicate_below [OF this, of recording GCSchedulerConfig_init]
  show ?thesis
    by (simp add: ThreadData_ctor_def ClearCountersAndUpdateThresholds_def)
qed

lemma scenario_A_reach:
  "thread_run True recording (ThreadData_ctor GCSchedulerConfig_init)
     (replicate 100000 (GCSchedulerConfig_init, Regular 1)) =
   Inr (ThreadData_ctor GCSchedulerConfig_init, replicate 99999 [] @ [[(0, 100000)]])"
proof -
  have split: "replicate 100000 (GCSchedulerConfig_init, Regular 1) =
      replicate 99999 (GCSchedulerConfig_init, Regular 1) @ [(GCSchedulerConfig_init, Regular 1)]"
    using replicate_add [of 99999 1 "(GCSchedulerConfig_init, Regular 1)"] by simp
  show ?thesis
    unfolding split thread_run_append scenario_A_below
    by (simp add: thread_call_def Regular_recording ThreadData_ctor_def
        ClearCountersAndUpdateThresholds_def GCSchedulerConfig_init_def)
qed

text \<open>Scenario B: the default configuration and ten allocations of 1 MiB, in any mode.\<close>

lemma scenario_B:
  "thread_run gcAggressive recording (ThreadData_ctor GCSchedulerConfig_init)
     (replicate 10 (GCSchedulerConfig_init, Allocation (1024 * 1024))) =
   Inr (ThreadData_ctor GCSchedulerConfig_init, replicate 9 [] @ [[(10 * 1024 * 1024, 0)]])"
proof -
  have ten: "replicate 10 (c, Allocation (1024 * 1024)) =
      [(c, Allocation (1024 * 1024)), (c, Allocation (1024 * 1024)),
       (c, Allocation (1024 * 1024)), (c, Allocation (1024 * 1024)),
       (c, Allocation (1024 * 1024)), (c, Allocation (1024 * 1024)),
       (c, Allocation (1024 * 1024)), (c, Allocation (1024 * 1024)),
       (c, Allocation (1024 * 1024)), (c, Allocation (1024 * 1024))]" for c :: GCSchedulerConfig
    by (simp add: numeral_eq_Suc)
  have nine: "replicate 9 ([] :: (size_t \<times> size_t) list) = [[], [], [], [], [], [], [], [], []]"
    by (simp add: numeral_eq_Suc)
  show ?thesis
    unfolding ten nine
    by (simp add: thread_call_def Allocation_recording ThreadData_ctor_def
        ClearCountersAndUpdateThresholds_def GCSchedulerConfig_init_def)
qed

text \<open>
  Claim C2, as stated, fails when the addition \<^verbatim>\<open>allocatedBytes_ += size\<close> wraps around.
  Under the default configuration a new thread allocates 1 byte and then
  \<open>2 ^ 64 - 1\<close> bytes: the counter goes from 1 to 0, below the snapshot of 10 MiB, and
  neither call reports, while the cumulative bytes of the specification are \<open>2 ^ 64\<close> at
  the second call, which it expects to report.
\<close>

theorem Allocation_reports_wrap_counterexample:
  "thread_run False recording (ThreadData_ctor GCSchedulerConfig_init)
     (allocations [(GCSchedulerConfig_init, 1), (GCSchedulerConfig_init, 18446744073709551615)]) =
     Inr (ThreadData_ctor GCSchedulerConfig_init, [[], []])
   \<and> reported [[], [] :: (size_t \<times> size_t) list] = [False, False]
   \<and> reports_expected
       (unat (allocatedBytesThreshold_' (ThreadData_ctor GCSchedulerConfig_init)))
       (unat (allocatedBytes_' (ThreadData_ctor GCSchedulerConfig_init)))
       (allocation_amounts
          [(GCSchedulerConfig_init, 1), (GCSchedulerConfig_init, 18446744073709551615)]) =
     [False, True]"
  by (simp add: allocations_def allocation_amounts_def thread_call_def Allocation_recording
        ThreadData_ctor_def reported_def ClearCountersAndUpdateThresholds_def
        GCSchedulerConfig_init_def)

text \<open>
  Claim C2, amended. For every sequence of \<open>OnSafePointAllocation\<close> calls in which the
  running total of the bytes since the last reset stays below \<open>2 ^ 64\<close>, from any counters,
  under any configuration at each call and in either mode, every call returns normally
  and makes at most one report, and the calls that report are exactly those at which the
  cumulative bytes since the last reset reach the snapshot of the threshold. With the
  threshold of 10 MiB and ten allocations of 1 MiB, the tenth call alone reports.
\<close>

theorem Allocation_reports_at_threshold:
  "(fits_size_t (unat (allocatedBytesThreshold_' td)) (unat (allocatedBytes_' td))
      (allocation_amounts cs) \<longrightarrow>
    (\<exists>td' calls.
       thread_run gcAggressive recording td (allocations cs) = Inr (td', calls)
       \<and> reported calls =
           reports_expected (unat (allocatedBytesThreshold_' td)) (unat (allocatedBytes_' td))
             (allocation_amounts cs)
       \<and> list_all (\<lambda>c. length c \<le> 1) calls))
   \<and> thread_run gcAggressive recording (ThreadData_ctor GCSchedulerConfig_init)
        (replicate 10 (GCSchedulerConfig_init, Allocation (1024 * 1024))) =
       Inr (ThreadData_ctor GCSchedulerConfig_init, replicate 9 [] @ [[(10 * 1024 * 1024, 0)]])"
  using allocations_refine [of td cs gcAggressive] scenario_B [of gcAggressive]
  by (intro conjI impI)

text \<open>
  A thread constructed under the default configuration holds the snapshot of 10 MiB; the
  live threshold is 1 MiB at each of its four allocations of 6 MiB, 6 MiB, 1 MiB and 1
  byte. The first does not report (6 MiB are below the snapshot), the second reports
  12 MiB and takes the snapshot of 1 MiB, the third reports 1 MiB, the fourth does not
  report.
\<close>

theorem Allocation_reports_at_threshold_witness:
  "fits_size_t 10485760 0
     [(1048576, 6291456), (1048576, 6291456), (1048576, 1048576), (1048576, 1)]
   \<and> thread_run True recording (ThreadData_ctor GCSchedulerConfig_init)
       (allocations
          [(GCSchedulerConfig_init \<lparr> allocationThresholdBytes := 1048576 \<rparr>, 6291456),
           (GCSchedulerConfig_init \<lparr> allocationThresholdBytes := 1048576 \<rparr>, 6291456),
           (GCSchedulerConfig_init \<lparr> allocationThresholdBytes := 1048576 \<rparr>, 1048576),
           (GCSchedulerConfig_init \<lparr> allocationThresholdBytes := 1048576 \<rparr>, 1)]) =
       Inr ((ThreadData_ctor (GCSchedulerConfig_init \<lparr> allocationThresholdBytes := 1048576 \<rparr>))
              \<lparr> allocatedBytes_' := 1 \<rparr>,
            [[], [(12582912, 0)], [(1048576, 0)], []])
   \<and> reported [[], [(12582912 :: size_t, 0 :: size_t)], [(1048576, 0)], []] =
       [False, True, True, False]
   \<and> reports_expected 10485760 0
       [(1048576, 6291456), (1048576, 6291456), (1048576, 1048576), (1048576, 1)] =
       [False, True, True, False]"
  using Allocation_reports_at_threshold [where td = "ThreadData_ctor GCSchedulerConfig_init"
      and gcAggressive = True
      and cs = "[(GCSchedulerConfig_init \<lparr> allocationThresholdBytes := 1048576 \<rparr>, 6291456),
           (GCSchedulerConfig_init \<lparr> allocationThresholdBytes := 1048576 \<rparr>, 6291456),
           (GCSchedulerConfig_init \<lparr> allocationThresholdBytes := 1048576 \<rparr>, 1048576),
           (GCSchedulerConfig_init \<lparr> allocationThresholdBytes := 1048576 \<rparr>, 1)]"]
  by (simp add: allocations_def allocation_amounts_def thread_call_def Allocation_recording
        ThreadData_ctor_def reported_def ClearCountersAndUpdateThresholds_def
        GCSchedulerConfig_init_def)

text \<open>
  Claim C3, as stated, fails when the addition \<^verbatim>\<open>safePointsCounter_ += weight\<close> wraps
  around. In the aggressive mode, with the weight threshold 100000, a new thread passes a
  safepoint of weight 1 and one of weight \<open>2 ^ 64 - 1\<close>: the counter goes from 1 to 0 and
  neither call reports, while the cumulative weight of the specification is \<open>2 ^ 64\<close> at
  the second call, which it expects to report.
\<close>

theorem Regular_reports_wrap_counterexample:
  "thread_run True recording (ThreadData_ctor GCSchedulerConfig_init)
     (regulars [(GCSchedulerConfig_init, 1), (GCSchedulerConfig_init, 18446744073709551615)]) =
     Inr (ThreadData_ctor GCSchedulerConfig_init, [[], []])
   \<and> reported [[], [] :: (size_t \<times> size_t) list] = [False, False]
   \<and> reports_expected
       (unat (safePointsCounterThreshold_' (ThreadData_ctor GCSchedulerConfig_init)))
       (unat (safePointsCounter_' (ThreadData_ctor GCSchedulerConfig_init)))
       (regular_amounts
          [(GCSchedulerConfig_init, 1), (GCSchedulerConfig_init, 18446744073709551615)]) =
     [False, True]"
  by (simp add: regulars_def regular_amounts_def thread_call_def Regular_recording
        ThreadData_ctor_def reported_def ClearCountersAndUpdateThresholds_def
        GCSchedulerConfig_init_def)

text \<open>
  Claim C3, amended. In the aggressive mode, for every sequence of \<open>OnSafePointRegular\<close>
  calls in which the running total of the weights since the last reset stays below
  \<open>2 ^ 64\<close>, from any counters and under any configuration at each call, every call
  returns normally and makes at most one report, and the calls that report are exactly
  those at which the cumulative weight since the last reset reaches the snapshot of the
  threshold. A call that reports leaves the counters cleared, the weighted counter at
  zero. With the threshold 100000, 99999 safepoints of weight 1 make no report and leave
  99999 in the counter, and the next one makes the one report and leaves the counter at
  zero.
\<close>

theorem Regular_reports_at_threshold:
  "(fits_size_t (unat (safePointsCounterThreshold_' td)) (unat (safePointsCounter_' td))
      (regular_amounts cs) \<longrightarrow>
    (\<exists>td' calls.
       thread_run True recording td (regulars cs) = Inr (td', calls)
       \<and> reported calls =
           reports_expected (unat (safePointsCounterThreshold_' td))
             (unat (safePointsCounter_' td)) (regular_amounts cs)
       \<and> list_all (\<lambda>c. length c \<le> 1) calls))
   \<and> (OnSafePointRegular True recording config td weight = Inr (td', calls) \<and> calls \<noteq> [] \<longrightarrow>
        td' = ClearCountersAndUpdateThresholds config td \<and> safePointsCounter_' td' = 0)
   \<and> thread_run True recording (ThreadData_ctor GCSchedulerConfig_init)
        (replicate 99999 (GCSchedulerConfig_init, Regular 1)) =
       Inr ((ThreadData_ctor GCSchedulerConfig_init) \<lparr> safePointsCounter_' := 99999 \<rparr>,
            replicate 99999 [])
   \<and> thread_run True recording (ThreadData_ctor GCSchedulerConfig_init)
        (replicate 100000 (GCSchedulerConfig_init, Regular 1)) =
       Inr (ThreadData_ctor GCSchedulerConfig_init, replicate 99999 [] @ [[(0, 100000)]])"
  using regulars_refine [of td cs]
    Regular_report_resets [of config td weight td' calls]
    scenario_A_below scenario_A_reach
  by (intro conjI impI) simp_all

text \<open>
  The configuration of an aggressive build (weight threshold 1000) and weights 600, 600
  and 1: the second call reports 1200 and clears the counter, the others do not report.
\<close>

theorem Regular_reports_at_threshold_witness:
  "fits_size_t 1000 0 [(1000, 600), (1000, 600), (1000, 1)]
   \<and> thread_run True recording (ThreadData_ctor (GCSchedulerConfig_ctor True))
       (regulars [(GCSchedulerConfig_ctor True, 600), (GCSchedulerConfig_ctor True, 600),
                  (GCSchedulerConfig_ctor True, 1)]) =
       Inr ((ThreadData_ctor (GCSchedulerConfig_ctor True)) \<lparr> safePointsCounter_' := 1 \<rparr>,
            [[], [(0, 1200)], []])
   \<and> reported [[], [(0 :: size_t, 1200 :: size_t)], []] = [False, True, False]
   \<and> reports_expected 1000 0 [(1000, 600), (1000, 600), (1000, 1)] = [False, True, False]
   \<and> OnSafePointRegular True recording (GCSchedulerConfig_ctor True)
       ((ThreadData_ctor (GCSchedulerConfig_ctor True)) \<lparr> safePointsCounter_' := 600 \<rparr>) 600 =
       Inr (ThreadData_ctor (GCSchedulerConfig_ctor True), [(0, 1200)])
   \<and> safePointsCounter_' (ThreadData_ctor (GCSchedulerConfig_ctor True)) = 0"
  using
    Regular_reports_at_threshold [where config = "GCSchedulerConfig_ctor True"
      and td = "ThreadData_ctor (GCSchedulerConfig_ctor True)"
      and cs = "[(GCSchedulerConfig_ctor True, 600), (GCSchedulerConfig_ctor True, 600),
                  (GCSchedulerConfig_ctor True, 1)]"
      and weight = 1
      and td' = "(ThreadData_ctor (GCSchedulerConfig_ctor True)) \<lparr> safePointsCounter_' := 1 \<rparr>"
      and calls = "[]"]
    Regular_reports_at_threshold [where config = "GCSchedulerConfig_ctor True"
      and td = "(ThreadData_ctor (GCSchedulerConfig_ctor True)) \<lparr> safePointsCounter_' := 600 \<rparr>"
      and cs = "[]" and weight = 600
      and td' = "ThreadData_ctor (GCSchedulerConfig_ctor True)" and calls = "[(0, 1200)]"]
  by (simp add: regulars_def regular_amounts_def thread_call_def Regular_recording
        ThreadData_ctor_def reported_def ClearCountersAndUpdateThresholds_def
        GCSchedulerConfig_ctor_def GCSchedulerConfig_init_def)

subsection \<open>The composition root\<close>

lemma SetScheduleGC_empty:
  "GCScheduler_SetScheduleGC s None = Inl (RuntimeAssertFailed ''scheduleGC cannot be empty'')"
  by (simp add: GCScheduler_SetScheduleGC_def RuntimeAssert_def to_bool_def)

lemma SetScheduleGC_bound:
  "GCScheduler.scheduleGC_' s \<noteq> None \<Longrightarrow>
   GCScheduler_SetScheduleGC s (Some g) =
     Inl (RuntimeAssertFailed ''scheduleGC must not have been set'')"
  by (auto simp add: GCScheduler_SetScheduleGC_def RuntimeAssert_def to_bool_def)

lemma SetScheduleGC_first:
  "GCScheduler.scheduleGC_' s = None \<Longrightarrow>
   GCScheduler_SetScheduleGC s (Some f) =
     Inr (s \<lparr> GCScheduler.scheduleGC_' := Some f,
              gcData_' := (gcData_' s) \<lparr> GCData.scheduleGC_' := Some f \<rparr> \<rparr>)"
  by (simp add: GCScheduler_SetScheduleGC_def RuntimeAssert_def to_bool_def
      GCData_SetScheduleGC_def)

text \<open>
  Claim C9. \<open>GCScheduler_SetScheduleGC\<close> with the empty function ends the process by the
  first assertion; with a callback, on a scheduler that has one bound, it ends the
  process by the second assertion; with a callback \<open>f\<close>, on a scheduler that has none
  bound, it returns normally, and \<open>f\<close> is the callback of the scheduler and of its
  decision state. After a call that returned normally, a second call ends the process.
\<close>

theorem GCScheduler_SetScheduleGC_once:
  "GCScheduler_SetScheduleGC s None = Inl (RuntimeAssertFailed ''scheduleGC cannot be empty'')
   \<and> (GCScheduler.scheduleGC_' s \<noteq> None \<longrightarrow>
        GCScheduler_SetScheduleGC s (Some g) =
          Inl (RuntimeAssertFailed ''scheduleGC must not have been set''))
   \<and> (GCScheduler.scheduleGC_' s = None \<longrightarrow>
        GCScheduler_SetScheduleGC s (Some f) =
          Inr (s \<lparr> GCScheduler.scheduleGC_' := Some f,
                   gcData_' := (gcData_' s) \<lparr> GCData.scheduleGC_' := Some f \<rparr> \<rparr>))
   \<and> (GCScheduler_SetScheduleGC s (Some f) = Inr s' \<longrightarrow>
        GCScheduler_SetScheduleGC s' (Some g) =
          Inl (RuntimeAssertFailed ''scheduleGC must not have been set''))"
proof -
  have again: "GCScheduler_SetScheduleGC s' (Some g) =
          Inl (RuntimeAssertFailed ''scheduleGC must not have been set'')"
    if "GCScheduler_SetScheduleGC s (Some f) = Inr s'"
  proof -
    from that have "GCScheduler.scheduleGC_' s' = Some f"
      by (auto simp add: GCScheduler_SetScheduleGC_def RuntimeAssert_def to_bool_def
          GCData_SetScheduleGC_def split: if_splits option.splits)
    then show ?thesis by (simp add: SetScheduleGC_bound)
  qed
  show ?thesis
    by (intro conjI impI)
      (simp_all add: SetScheduleGC_empty SetScheduleGC_bound SetScheduleGC_first again)
qed

text \<open>
  A new scheduler (not aggressive, constructed at time 0) binds the target 1; the scheduler
  that this leaves refuses the target 2.
\<close>

theorem GCScheduler_SetScheduleGC_once_witness:
  "GCScheduler.scheduleGC_' (GCScheduler_ctor False 0 :: nat GCScheduler) = None
   \<and> GCScheduler_SetScheduleGC (GCScheduler_ctor False 0) (Some (1::nat)) =
       Inr \<lparr> config_' = GCSchedulerConfig_init,
             gcData_' = \<lparr> timeOfLastGcNs_' = 0, scheduleGC_' = Some 1 \<rparr>,
             scheduleGC_' = Some 1 \<rparr>
   \<and> GCScheduler.scheduleGC_'
        \<lparr> config_' = GCSchedulerConfig_init,
          gcData_' = \<lparr> timeOfLastGcNs_' = 0, scheduleGC_' = Some (1::nat) \<rparr>,
          scheduleGC_' = Some (1::nat) \<rparr> \<noteq> None
   \<and> GCScheduler_SetScheduleGC
        \<lparr> config_' = GCSchedulerConfig_init,
          gcData_' = \<lparr> timeOfLastGcNs_' = 0, scheduleGC_' = Some 1 \<rparr>,
          scheduleGC_' = Some 1 \<rparr> (Some (2::nat)) =
       Inl (RuntimeAssertFailed ''scheduleGC must not have been set'')"
  using GCScheduler_SetScheduleGC_once [where s = "GCScheduler_ctor False 0" and f = "1::nat"
      and g = "2::nat"
      and s' = "\<lparr> config_' = GCSchedulerConfig_init,
          gcData_' = \<lparr> timeOfLastGcNs_' = 0, scheduleGC_' = Some 1 \<rparr>,
          scheduleGC_' = Some 1 \<rparr>"]
    GCScheduler_SetScheduleGC_once [where s = "\<lparr> config_' = GCSchedulerConfig_init,
          gcData_' = \<lparr> timeOfLastGcNs_' = 0, scheduleGC_' = Some (1::nat) \<rparr>,
          scheduleGC_' = Some (1::nat) \<rparr>" and f = "1::nat" and g = "2::nat"
      and s' = "GCScheduler_ctor False 0"]
  by (simp add: GCScheduler_ctor_def GCData_ctor_def GCSchedulerConfig_ctor_def)

text \<open>
  Claim C10. A thread of the scheduler \<open>s\<close> holds the live allocation threshold as its
  snapshot, and an allocation brings its bytes to exactly that threshold. Then the
  call reports (the recording callback receives the threshold as the reported bytes), the
  reported bytes are not strictly greater than the live threshold, and with the callback
  of \<open>NewThreadData\<close> the trigger callback is called only if the cooldown has elapsed at
  the time \<open>now\<close> of the call: if it has not, the call returns normally with no call made.
\<close>

theorem Allocation_exactly_at_threshold:
  "allocatedBytesThreshold_' td = allocationThresholdBytes (config_' s)
   \<and> unat (allocatedBytes_' td) + unat size' = unat (allocatedBytesThreshold_' td) \<longrightarrow>
     OnSafePointAllocation recording (config_' s) td size' =
       Inr (ClearCountersAndUpdateThresholds (config_' s) td,
            [(allocationThresholdBytes (config_' s), safePointsCounter_' td)])
     \<and> \<not> allocationThresholdBytes (config_' s) < allocatedBytes_' td + size'
     \<and> OnSafePointAllocation (NewThreadData_onSafePoint s now) (config_' s) td size' =
         (if cooldownThresholdNs (config_' s) \<le> now - timeOfLastGcNs_' (gcData_' s)
          then (case GCData.scheduleGC_' (gcData_' s) of
                  None \<Rightarrow> Inl (RuntimeAssertFailed ''scheduleGC_ cannot be empty'')
                | Some f \<Rightarrow> Inr (ClearCountersAndUpdateThresholds (config_' s) td, [f]))
          else Inr (ClearCountersAndUpdateThresholds (config_' s) td, []))"
proof (intro impI, elim conjE)
  assume snap: "allocatedBytesThreshold_' td = allocationThresholdBytes (config_' s)"
    and exact: "unat (allocatedBytes_' td) + unat size' = unat (allocatedBytesThreshold_' td)"
  have "unat (allocatedBytesThreshold_' td) < 2 ^ 64"
    using unsigned_less [of "allocatedBytesThreshold_' td"] by simp
  with exact have "unat (allocatedBytes_' td + size') = unat (allocatedBytesThreshold_' td)"
    by (simp add: unat_plus_fits)
  then have sum: "allocatedBytes_' td + size' = allocationThresholdBytes (config_' s)"
    by (simp add: word_unat_eq_iff snap)
  have rep: "OnSafePointAllocation recording (config_' s) td size' =
       Inr (ClearCountersAndUpdateThresholds (config_' s) td,
            [(allocationThresholdBytes (config_' s), safePointsCounter_' td)])"
    by (simp add: Allocation_recording sum snap)
  have cond: "\<not> allocationThresholdBytes (config_' s) < allocatedBytes_' td + size'"
    by (simp add: sum)
  have comp: "OnSafePointAllocation (NewThreadData_onSafePoint s now) (config_' s) td size' =
         (if cooldownThresholdNs (config_' s) \<le> now - timeOfLastGcNs_' (gcData_' s)
          then (case GCData.scheduleGC_' (gcData_' s) of
                  None \<Rightarrow> Inl (RuntimeAssertFailed ''scheduleGC_ cannot be empty'')
                | Some f \<Rightarrow> Inr (ClearCountersAndUpdateThresholds (config_' s) td, [f]))
          else Inr (ClearCountersAndUpdateThresholds (config_' s) td, []))"
    by (simp add: OnSafePointAllocation_def Let_def sum snap OnSafePointSlowPath_def
        NewThreadData_onSafePoint_def OnSafePoint_def RuntimeAssert_def to_bool_def invoke_def
        Clear_after_allocatedBytes split: option.splits)
  from rep cond comp show "OnSafePointAllocation recording (config_' s) td size' =
       Inr (ClearCountersAndUpdateThresholds (config_' s) td,
            [(allocationThresholdBytes (config_' s), safePointsCounter_' td)])
     \<and> \<not> allocationThresholdBytes (config_' s) < allocatedBytes_' td + size'
     \<and> OnSafePointAllocation (NewThreadData_onSafePoint s now) (config_' s) td size' =
         (if cooldownThresholdNs (config_' s) \<le> now - timeOfLastGcNs_' (gcData_' s)
          then (case GCData.scheduleGC_' (gcData_' s) of
                  None \<Rightarrow> Inl (RuntimeAssertFailed ''scheduleGC_ cannot be empty'')
                | Some f \<Rightarrow> Inr (ClearCountersAndUpdateThresholds (config_' s) td, [f]))
          else Inr (ClearCountersAndUpdateThresholds (config_' s) td, []))"
    by (intro conjI)
qed

text \<open>
  A scheduler of a build that is not aggressive, constructed at time 0, with the target 7
  bound; a thread of it that has allocated 9 MiB allocates 1 MiB more. The call reports
  10 MiB; at time 1000 the trigger is not called, at 200 ms it is.
\<close>

theorem Allocation_exactly_at_threshold_witness:
  "allocatedBytesThreshold_' ((NewThreadData (GCScheduler_ctor False 0 :: nat GCScheduler))
       \<lparr> allocatedBytes_' := 9437184 \<rparr>) =
     allocationThresholdBytes (config_' (GCScheduler_ctor False 0 :: nat GCScheduler))
   \<and> unat (9437184 :: size_t) + unat (1048576 :: size_t) = unat (10485760 :: size_t)
   \<and> OnSafePointAllocation recording GCSchedulerConfig_init
       ((NewThreadData (GCScheduler_ctor False 0 :: nat GCScheduler))
          \<lparr> allocatedBytes_' := 9437184 \<rparr>) 1048576 =
       Inr (ThreadData_ctor GCSchedulerConfig_init, [(10485760, 0)])
   \<and> OnSafePointAllocation
       (NewThreadData_onSafePoint
          ((GCScheduler_ctor False 0)
             \<lparr> gcData_' := \<lparr> timeOfLastGcNs_' = 0, scheduleGC_' = Some (7::nat) \<rparr>,
               GCScheduler.scheduleGC_' := Some 7 \<rparr>) 1000)
       GCSchedulerConfig_init
       ((NewThreadData (GCScheduler_ctor False 0 :: nat GCScheduler))
          \<lparr> allocatedBytes_' := 9437184 \<rparr>) 1048576 =
       Inr (ThreadData_ctor GCSchedulerConfig_init, [])
   \<and> OnSafePointAllocation
       (NewThreadData_onSafePoint
          ((GCScheduler_ctor False 0)
             \<lparr> gcData_' := \<lparr> timeOfLastGcNs_' = 0, scheduleGC_' = Some (7::nat) \<rparr>,
               GCScheduler.scheduleGC_' := Some 7 \<rparr>) 200000000)
       GCSchedulerConfig_init
       ((NewThreadData (GCScheduler_ctor False 0 :: nat GCScheduler))
          \<lparr> allocatedBytes_' := 9437184 \<rparr>) 1048576 =
       Inr (ThreadData_ctor GCSchedulerConfig_init, [7])"
  using
    Allocation_exactly_at_threshold [where s = "(GCScheduler_ctor False 0)
             \<lparr> gcData_' := \<lparr> timeOfLastGcNs_' = 0, scheduleGC_' = Some (7::nat) \<rparr>,
               GCScheduler.scheduleGC_' := Some 7 \<rparr>"
      and td = "(NewThreadData (GCScheduler_ctor False 0 :: nat GCScheduler))
          \<lparr> allocatedBytes_' := 9437184 \<rparr>"
      and size' = 1048576 and now = 1000]
    Allocation_exactly_at_threshold [where s = "(GCScheduler_ctor False 0)
             \<lparr> gcData_' := \<lparr> timeOfLastGcNs_' = 0, scheduleGC_' = Some (7::nat) \<rparr>,
               GCScheduler.scheduleGC_' := Some 7 \<rparr>"
      and td = "(NewThreadData (GCScheduler_ctor False 0 :: nat GCScheduler))
          \<lparr> allocatedBytes_' := 9437184 \<rparr>"
      and size' = 1048576 and now = 200000000]
  by (simp add: GCScheduler_ctor_def GCSchedulerConfig_ctor_def GCSchedulerConfig_init_def
      NewThreadData_def ThreadData_ctor_def ClearCountersAndUpdateThresholds_def)

end
